theory Spec2Isabelle
  imports Main "HOL-Library.Word"
begin

section \<open>The Node binding of the coral grammar\<close>

text \<open>
  The source is \<^verbatim>\<open>packages/tree-sitter-coral/bindings/node/binding.cc\<close>:
  \<^verbatim>\<open>
   5  extern "C" TSLanguage *tree_sitter_coral();
   7  Napi::Object Init(Napi::Env env, Napi::Object exports) {
   8      exports["name"] = Napi::String::New(env, "coral");
   9      auto language = Napi::External<TSLanguage>::New(env, tree_sitter_coral());
  10      exports["language"] = language;
  11      return exports;
  12  }
  \<close>
  \<open>Init\<close> is straight-line code with three effects (two property writes and one call
  into the grammar library). It is modelled as a step function over program points, so
  that the order of the effects can be stated, and as the run of that step function to
  the return.
\<close>

subsection \<open>Values, objects and the state of the process\<close>

text \<open>
  \<^verbatim>\<open>TSLanguage *\<close> is an opaque pointer; only its value matters here, and the null
  pointer is the address 0.
\<close>

type_synonym TSLanguage_ptr = "64 word"

definition nullptr :: TSLanguage_ptr where
  "nullptr = 0"

text \<open>A \<^verbatim>\<open>Napi::Object\<close> is a handle to a JavaScript object: a reference, not the object.\<close>

type_synonym obj_ref = nat

text \<open>
  JavaScript values as far as the binding and its callers are concerned. \<open>Init\<close> creates
  strings and externals only; the other constructors stand for what a container may
  hold before the call. An external is identified with the pointer it wraps.
\<close>

datatype napi_value =
    Napi_Undefined
  | Napi_Boolean bool
  | Napi_Number int
  | Napi_String string
  | Napi_External TSLanguage_ptr
  | Napi_Object obj_ref

text \<open>\<^verbatim>\<open>Napi::Env\<close> is passed by value to the two constructors and is otherwise unused.\<close>

datatype Env = Env nat

definition String_New :: "Env \<Rightarrow> string \<Rightarrow> napi_value" where
  "String_New env s = Napi_String s"

definition External_New :: "Env \<Rightarrow> TSLanguage_ptr \<Rightarrow> napi_value" where
  "External_New env p = Napi_External p"

text \<open>The pointer an external carries (\<^verbatim>\<open>Napi::External<T>::Data\<close>).\<close>

fun External_Data :: "napi_value \<Rightarrow> TSLanguage_ptr option" where
  "External_Data (Napi_External p) = Some p"
| "External_Data _ = None"

text \<open>
  The state of the process: the JavaScript objects (every reference denotes a writable
  key-value object, as the operation requires of its argument), the static state of the
  external grammar library (of a type \<open>'l\<close> that library chooses), and everything else.
\<close>

type_synonym js_object = "string \<rightharpoonup> napi_value"

record ('l, 'o) world =
  objects :: "obj_ref \<Rightarrow> js_object"
  grammar_lib :: 'l
  other :: 'o

text \<open>\<^verbatim>\<open>obj[key] = value\<close> on a \<^verbatim>\<open>Napi::Object\<close>: the property is set, whatever was there.\<close>

definition Object_Set ::
  "(obj_ref \<Rightarrow> js_object) \<Rightarrow> obj_ref \<Rightarrow> string \<Rightarrow> napi_value \<Rightarrow> (obj_ref \<Rightarrow> js_object)" where
  "Object_Set h r k v = h(r := (h r)(k \<mapsto> v))"

text \<open>
  \<^verbatim>\<open>tree_sitter_coral\<close> is declared in the source and defined by the grammar library. It
  takes no argument, returns a pointer, and may read and change that library's static
  state only. It is a parameter of the model.
\<close>

type_synonym 'l entry_point = "'l \<Rightarrow> TSLanguage_ptr \<times> 'l"

subsection \<open>Init, statement by statement\<close>

text \<open>
  A program point of \<open>Init\<close> names the line about to be executed and carries the local
  variable \<^verbatim>\<open>language\<close> where it is in scope; \<open>Returned\<close> carries the returned handle.
\<close>

datatype point =
    At_L8
  | At_L9
  | At_L10 napi_value
  | At_L11 napi_value
  | Returned obj_ref

type_synonym ('l, 'o) config = "point \<times> ('l, 'o) world"

fun Init_step ::
  "'l entry_point \<Rightarrow> Env \<Rightarrow> obj_ref \<Rightarrow> ('l, 'o) config \<Rightarrow> ('l, 'o) config option" where
  "Init_step tree_sitter_coral env exports (At_L8, w) =
     Some (At_L9,
           w\<lparr>objects := Object_Set (objects w) exports ''name'' (String_New env ''coral'')\<rparr>)"
| "Init_step tree_sitter_coral env exports (At_L9, w) =
     (case tree_sitter_coral (grammar_lib w) of
        (p, lib') \<Rightarrow> Some (At_L10 (External_New env p), w\<lparr>grammar_lib := lib'\<rparr>))"
| "Init_step tree_sitter_coral env exports (At_L10 language, w) =
     Some (At_L11 language,
           w\<lparr>objects := Object_Set (objects w) exports ''language'' language\<rparr>)"
| "Init_step tree_sitter_coral env exports (At_L11 language, w) =
     Some (Returned exports, w)"
| "Init_step tree_sitter_coral env exports (Returned r, w) = None"

text \<open>The number of statements still to execute; it decreases with every step.\<close>

fun remaining :: "point \<Rightarrow> nat" where
  "remaining At_L8 = 4"
| "remaining At_L9 = 3"
| "remaining (At_L10 _) = 2"
| "remaining (At_L11 _) = 1"
| "remaining (Returned _) = 0"

text \<open>The run of \<open>Init\<close> from a configuration: every configuration passed, in order.\<close>

function Init_run ::
  "'l entry_point \<Rightarrow> Env \<Rightarrow> obj_ref \<Rightarrow> ('l, 'o) config \<Rightarrow> ('l, 'o) config list" where
  "Init_run tree_sitter_coral env exports c =
     (case Init_step tree_sitter_coral env exports c of
        None \<Rightarrow> [c]
      | Some c' \<Rightarrow> c # Init_run tree_sitter_coral env exports c')"
  by pat_completeness auto
termination
proof (relation "measure (\<lambda>(tsc, env, exports, c). remaining (fst c))")
  show "wf (measure (\<lambda>(tsc, env, exports, c). remaining (fst c)))"
    by simp
next
  fix tree_sitter_coral :: "'l entry_point" and env exports
    and c c' :: "('l, 'o) config"
  assume "Init_step tree_sitter_coral env exports c = Some c'"
  then have "remaining (fst c') < remaining (fst c)"
    by (cases "(tree_sitter_coral, env, exports, c)" rule: Init_step.cases)
       (auto split: prod.splits)
  then show "((tree_sitter_coral, env, exports, c'), (tree_sitter_coral, env, exports, c))
      \<in> measure (\<lambda>(tsc, env, exports, c). remaining (fst c))"
    by simp
qed

declare Init_run.simps [simp del]

text \<open>
  \<open>Init\<close> itself: the run from line 8 in the caller's state; its result is the returned
  handle and the state at the return, and \<open>None\<close> if the run ends anywhere else.
\<close>

definition Init ::
  "'l entry_point \<Rightarrow> Env \<Rightarrow> obj_ref \<Rightarrow> ('l, 'o) world \<Rightarrow> (obj_ref \<times> ('l, 'o) world) option" where
  "Init tree_sitter_coral env exports w =
     (case last (Init_run tree_sitter_coral env exports (At_L8, w)) of
        (Returned r, w') \<Rightarrow> Some (r, w')
      | _ \<Rightarrow> None)"

text \<open>Whether the call of line 9 has returned when the program is at a point.\<close>

fun entry_point_returned :: "point \<Rightarrow> bool" where
  "entry_point_returned At_L8 = False"
| "entry_point_returned At_L9 = False"
| "entry_point_returned (At_L10 _) = True"
| "entry_point_returned (At_L11 _) = True"
| "entry_point_returned (Returned _) = True"

text \<open>
  The handle a container exports: the pointer inside its \<open>language\<close> entry, if that entry
  is an external.
\<close>

definition language_handle :: "js_object \<Rightarrow> TSLanguage_ptr option" where
  "language_handle obj = (case obj ''language'' of None \<Rightarrow> None | Some v \<Rightarrow> External_Data v)"

text \<open>The container as \<open>Init\<close> hands it back to the host, if \<open>Init\<close> returns.\<close>

definition exports_after ::
  "'l entry_point \<Rightarrow> Env \<Rightarrow> obj_ref \<Rightarrow> ('l, 'o) world \<Rightarrow> js_object option" where
  "exports_after tree_sitter_coral env exports w =
     (case Init tree_sitter_coral env exports w of
        None \<Rightarrow> None
      | Some (r, w') \<Rightarrow> Some (objects w' r))"

text \<open>
  The hypothesis of the idempotence property: called again in the state its own call
  has left, the entry point returns the same pointer.
\<close>

definition returns_cached :: "'l entry_point \<Rightarrow> 'l \<Rightarrow> bool" where
  "returns_cached tree_sitter_coral lib \<longleftrightarrow>
     fst (tree_sitter_coral (snd (tree_sitter_coral lib))) = fst (tree_sitter_coral lib)"

subsection \<open>Concrete libraries and states\<close>

text \<open>
  Two grammar libraries to run \<open>Init\<close> against. The first builds its automaton on the
  first call (its state records that) and returns the same address every time; the
  second returns the null pointer.
\<close>

definition cached_grammar :: "bool entry_point" where
  "cached_grammar built = (4096, True)"

definition null_grammar :: "bool entry_point" where
  "null_grammar built = (nullptr, built)"

text \<open>
  A process in which every object is empty, as the container of a fresh module load is;
  and one in which the container 0 already has entries and the object 1 is somebody
  else's.
\<close>

definition fresh_world :: "(bool, nat) world" where
  "fresh_world = \<lparr>objects = (\<lambda>r. Map.empty), grammar_lib = False, other = 7\<rparr>"

definition used_exports :: js_object where
  "used_exports = [''version'' \<mapsto> Napi_Number 1, ''name'' \<mapsto> Napi_String ''old'']"

definition bystander :: js_object where
  "bystander = [''keep'' \<mapsto> Napi_Boolean True]"

definition used_world :: "(bool, nat) world" where
  "used_world =
     \<lparr>objects = (\<lambda>r. if r = 0 then used_exports else if r = 1 then bystander else Map.empty),
      grammar_lib = False, other = 7\<rparr>"

text \<open>The run of \<open>Init\<close> on the container 0 of the fresh process, with the first library.\<close>

definition fresh_run :: "(bool, nat) config list" where
  "fresh_run = Init_run cached_grammar (Env 0) 0 (At_L8, fresh_world)"

subsection \<open>The run and the result in closed form\<close>

lemma Init_run_trace:
  "Init_run tsc env exports (At_L8, w) =
     [(At_L8, w),
      (At_L9, w\<lparr>objects := Object_Set (objects w) exports ''name'' (String_New env ''coral'')\<rparr>),
      (At_L10 (External_New env (fst (tsc (grammar_lib w)))),
       w\<lparr>objects := Object_Set (objects w) exports ''name'' (String_New env ''coral''),
         grammar_lib := snd (tsc (grammar_lib w))\<rparr>),
      (At_L11 (External_New env (fst (tsc (grammar_lib w)))),
       w\<lparr>objects := Object_Set
            (Object_Set (objects w) exports ''name'' (String_New env ''coral''))
            exports ''language'' (External_New env (fst (tsc (grammar_lib w)))),
         grammar_lib := snd (tsc (grammar_lib w))\<rparr>),
      (Returned exports,
       w\<lparr>objects := Object_Set
            (Object_Set (objects w) exports ''name'' (String_New env ''coral''))
            exports ''language'' (External_New env (fst (tsc (grammar_lib w)))),
         grammar_lib := snd (tsc (grammar_lib w))\<rparr>)]"
  by (simp add: Init_run.simps split: prod.splits)

lemma Init_run_points:
  "c \<in> set (Init_run tsc env exports (At_L8, w)) \<longleftrightarrow>
     c = (At_L8, w)
   \<or> c = (At_L9, w\<lparr>objects := Object_Set (objects w) exports ''name'' (String_New env ''coral'')\<rparr>)
   \<or> c = (At_L10 (External_New env (fst (tsc (grammar_lib w)))),
       w\<lparr>objects := Object_Set (objects w) exports ''name'' (String_New env ''coral''),
         grammar_lib := snd (tsc (grammar_lib w))\<rparr>)
   \<or> c = (At_L11 (External_New env (fst (tsc (grammar_lib w)))),
       w\<lparr>objects := Object_Set
            (Object_Set (objects w) exports ''name'' (String_New env ''coral''))
            exports ''language'' (External_New env (fst (tsc (grammar_lib w)))),
         grammar_lib := snd (tsc (grammar_lib w))\<rparr>)
   \<or> c = (Returned exports,
       w\<lparr>objects := Object_Set
            (Object_Set (objects w) exports ''name'' (String_New env ''coral''))
            exports ''language'' (External_New env (fst (tsc (grammar_lib w)))),
         grammar_lib := snd (tsc (grammar_lib w))\<rparr>)"
  by (simp add: Init_run_trace)

lemma Init_result:
  "Init tsc env exports w =
     Some (exports,
       w\<lparr>objects := Object_Set
            (Object_Set (objects w) exports ''name'' (String_New env ''coral''))
            exports ''language'' (External_New env (fst (tsc (grammar_lib w)))),
         grammar_lib := snd (tsc (grammar_lib w))\<rparr>)"
  by (simp add: Init_def Init_run_trace)

lemma Object_Set_same [simp]: "Object_Set h r k v r k = Some v"
  by (simp add: Object_Set_def)

lemma Object_Set_other_key [simp]: "k' \<noteq> k \<Longrightarrow> Object_Set h r k v r k' = h r k'"
  by (simp add: Object_Set_def)

lemma Object_Set_other_object [simp]: "r' \<noteq> r \<Longrightarrow> Object_Set h r k v r' = h r'"
  by (simp add: Object_Set_def)

lemma dom_Object_Set [simp]: "dom (Object_Set h r k v r) = insert k (dom (h r))"
  by (simp add: Object_Set_def)

lemma language_handle_External [simp]:
  "obj ''language'' = Some (Napi_External p) \<Longrightarrow> language_handle obj = Some p"
  by (simp add: language_handle_def)

lemma cached_grammar_nonnull: "fst (cached_grammar lib) \<noteq> nullptr"
  by (simp add: cached_grammar_def nullptr_def)

subsection \<open>The exported name\<close>

text \<open>
  C1. For every exports container, whatever it and the rest of the state held before,
  \<open>Init\<close> returns and the container then maps \<open>name\<close> to the string \<open>coral\<close>.
\<close>

theorem Init_name_coral:
  "\<exists>r w'. Init tree_sitter_coral env exports w = Some (r, w')
     \<and> objects w' exports ''name'' = Some (Napi_String ''coral'')"
  by (simp add: Init_result String_New_def)

subsection \<open>The exported handle\<close>

text \<open>
  C2. Handle pass-through: the value \<open>Init\<close> stores under \<open>language\<close> is the external made
  from the pointer that \<open>tree_sitter_coral\<close> returned in the caller's state, and the
  pointer read back from it is that pointer; so it is not null when the entry point did
  not return null.
\<close>

theorem Init_language_pass_through:
  "\<exists>r w'. Init tree_sitter_coral env exports w = Some (r, w')
     \<and> objects w' exports ''language''
         = Some (External_New env (fst (tree_sitter_coral (grammar_lib w))))
     \<and> language_handle (objects w' exports) = Some (fst (tree_sitter_coral (grammar_lib w)))
     \<and> (fst (tree_sitter_coral (grammar_lib w)) \<noteq> nullptr
          \<longrightarrow> language_handle (objects w' exports) \<noteq> Some nullptr)"
  by (simp add: Init_result External_New_def)

theorem Init_language_pass_through_witness:
  "fst (cached_grammar (grammar_lib fresh_world)) \<noteq> nullptr
   \<and> (\<exists>r w'. Init cached_grammar (Env 0) 0 fresh_world = Some (r, w')
        \<and> language_handle (objects w' 0) = Some 4096
        \<and> language_handle (objects w' 0) \<noteq> Some nullptr)"
proof -
  have nonnull: "fst (cached_grammar (grammar_lib fresh_world)) \<noteq> nullptr"
    by (rule cached_grammar_nonnull)
  have ret: "fst (cached_grammar (grammar_lib fresh_world)) = 4096"
    by (simp add: cached_grammar_def)
  from Init_language_pass_through [of cached_grammar "Env 0" 0 fresh_world]
  obtain r w' where
    run: "Init cached_grammar (Env 0) 0 fresh_world = Some (r, w')" and
    handle: "language_handle (objects w' 0)
               = Some (fst (cached_grammar (grammar_lib fresh_world)))" and
    sound: "fst (cached_grammar (grammar_lib fresh_world)) \<noteq> nullptr
              \<longrightarrow> language_handle (objects w' 0) \<noteq> Some nullptr"
    by (elim exE conjE)
  from sound nonnull have "language_handle (objects w' 0) \<noteq> Some nullptr"
    by (rule mp)
  moreover from handle ret have "language_handle (objects w' 0) = Some 4096"
    by (rule trans [OF _ arg_cong [where f = Some]])
  ultimately have "\<exists>r w'. Init cached_grammar (Env 0) 0 fresh_world = Some (r, w')
        \<and> language_handle (objects w' 0) = Some 4096
        \<and> language_handle (objects w' 0) \<noteq> Some nullptr"
    using run by (intro exI conjI)
  with nonnull show ?thesis by (intro conjI)
qed

subsection \<open>The keys of the container\<close>

text \<open>
  \<open>Init\<close> adds to the container and removes nothing: run on the container 0 of
  \<open>used_world\<close>, which holds \<open>version\<close> and a stale \<open>name\<close>, it returns a container of three
  keys, not of the two keys \<open>name\<close> and \<open>language\<close> alone.
\<close>

theorem Init_keys_counterexample:
  "map_option dom (exports_after cached_grammar (Env 0) 0 used_world)
     = Some {''language'', ''name'', ''version''}
   \<and> {''language'', ''name'', ''version''} \<noteq> {''name'', ''language''}"
proof -
  have prior: "dom (objects used_world 0) = {''name'', ''version''}"
    by (simp add: used_world_def used_exports_def)
  have "exports_after cached_grammar (Env 0) 0 used_world
      = Some (Object_Set
          (Object_Set (objects used_world) 0 ''name'' (String_New (Env 0) ''coral''))
          0 ''language''
          (External_New (Env 0) (fst (cached_grammar (grammar_lib used_world)))) 0)"
    by (simp add: exports_after_def Init_result)
  then have after: "map_option dom (exports_after cached_grammar (Env 0) 0 used_world)
      = Some {''language'', ''name'', ''version''}"
    by (simp add: prior)
  have differ: "{''language'', ''name'', ''version''} \<noteq> {''name'', ''language''}"
  proof
    assume "{''language'', ''name'', ''version''} = {''name'', ''language''}"
    then have "''version'' \<in> {''name'', ''language''}"
      by (rule subst) simp
    then show False by simp
  qed
  from after differ show ?thesis by (rule conjI)
qed

text \<open>
  C3 (amended). After \<open>Init\<close> returns, the keys of the container are the keys it had
  before together with \<open>name\<close> and \<open>language\<close>; they are exactly \<open>name\<close> and \<open>language\<close>
  when the container held no other key before, as the empty container of a fresh load
  does.
\<close>

theorem Init_keys:
  "\<exists>r w'. Init tree_sitter_coral env exports w = Some (r, w')
     \<and> dom (objects w' exports) = dom (objects w exports) \<union> {''name'', ''language''}
     \<and> (dom (objects w exports) \<subseteq> {''name'', ''language''}
          \<longrightarrow> dom (objects w' exports) = {''name'', ''language''})"
proof -
  let ?w' = "w\<lparr>objects := Object_Set
            (Object_Set (objects w) exports ''name'' (String_New env ''coral''))
            exports ''language''
            (External_New env (fst (tree_sitter_coral (grammar_lib w)))),
         grammar_lib := snd (tree_sitter_coral (grammar_lib w))\<rparr>"
  have run: "Init tree_sitter_coral env exports w = Some (exports, ?w')"
    by (rule Init_result)
  have keys: "dom (objects ?w' exports) = dom (objects w exports) \<union> {''name'', ''language''}"
    by (simp add: insert_commute)
  have two: "dom (objects w exports) \<subseteq> {''name'', ''language''}
      \<longrightarrow> dom (objects ?w' exports) = {''name'', ''language''}"
    unfolding keys by blast
  from run keys two show ?thesis by blast
qed

theorem Init_keys_witness:
  "dom (objects fresh_world 0) \<subseteq> {''name'', ''language''}
   \<and> (\<exists>r w'. Init cached_grammar (Env 0) 0 fresh_world = Some (r, w')
        \<and> dom (objects w' 0) = {''name'', ''language''})"
proof -
  have prior: "dom (objects fresh_world 0) \<subseteq> {''name'', ''language''}"
    by (simp add: fresh_world_def)
  from Init_keys [of cached_grammar "Env 0" 0 fresh_world]
  obtain r w' where
    run: "Init cached_grammar (Env 0) 0 fresh_world = Some (r, w')" and
    two: "dom (objects fresh_world 0) \<subseteq> {''name'', ''language''}
            \<longrightarrow> dom (objects w' 0) = {''name'', ''language''}"
    by (elim exE conjE)
  from two prior have "dom (objects w' 0) = {''name'', ''language''}"
    by (rule mp)
  with run have "\<exists>r w'. Init cached_grammar (Env 0) 0 fresh_world = Some (r, w')
        \<and> dom (objects w' 0) = {''name'', ''language''}"
    by (intro exI conjI)
  with prior show ?thesis by (intro conjI)
qed

subsection \<open>The returned container\<close>

text \<open>
  C4. \<open>Init\<close> returns the handle it was given, not a handle to another object, and the
  object behind that handle then holds the two entries.
\<close>

theorem Init_returns_same_container:
  "\<exists>w'. Init tree_sitter_coral env exports w = Some (exports, w')
     \<and> objects w' exports ''name'' = Some (String_New env ''coral'')
     \<and> objects w' exports ''language''
         = Some (External_New env (fst (tree_sitter_coral (grammar_lib w))))"
  by (simp add: Init_result)

subsection \<open>What Init leaves alone\<close>

text \<open>
  C5. Frame property: \<open>Init\<close> changes the exports container and, through the entry point,
  the static state of the grammar library, and nothing else: the rest of the state is as
  before, every other object is as before, and in the container every key but \<open>name\<close>
  and \<open>language\<close> is as before.
\<close>

theorem Init_frame:
  "\<exists>r w'. Init tree_sitter_coral env exports w = Some (r, w')
     \<and> other w' = other w
     \<and> (\<forall>r'. r' \<noteq> exports \<longrightarrow> objects w' r' = objects w r')
     \<and> (\<forall>k. k \<notin> {''name'', ''language''} \<longrightarrow> objects w' exports k = objects w exports k)
     \<and> grammar_lib w' = snd (tree_sitter_coral (grammar_lib w))"
  by (simp add: Init_result)

theorem Init_frame_witness:
  "(1::obj_ref) \<noteq> 0 \<and> ''version'' \<notin> {''name'', ''language''}
   \<and> (\<exists>r w'. Init cached_grammar (Env 0) 0 used_world = Some (r, w')
        \<and> other w' = 7
        \<and> objects w' 1 = bystander
        \<and> objects w' 0 ''version'' = Some (Napi_Number 1)
        \<and> grammar_lib w' = True)"
proof -
  have key: "''version'' \<notin> {''name'', ''language''}" by simp
  have ref: "(1::obj_ref) \<noteq> 0" by simp
  have before: "other used_world = 7" "objects used_world 1 = bystander"
    "objects used_world 0 ''version'' = Some (Napi_Number 1)"
    "snd (cached_grammar (grammar_lib used_world)) = True"
    by (simp_all add: used_world_def used_exports_def cached_grammar_def)
  from Init_frame [of cached_grammar "Env 0" 0 used_world]
  obtain r w' where
    run: "Init cached_grammar (Env 0) 0 used_world = Some (r, w')" and
    rest: "other w' = other used_world" and
    objs: "\<forall>r'. r' \<noteq> 0 \<longrightarrow> objects w' r' = objects used_world r'" and
    keys: "\<forall>k. k \<notin> {''name'', ''language''} \<longrightarrow> objects w' 0 k = objects used_world 0 k" and
    lib: "grammar_lib w' = snd (cached_grammar (grammar_lib used_world))"
    by (elim exE conjE)
  from ref have o1: "objects w' 1 = objects used_world 1"
    by (rule objs [THEN spec, THEN mp])
  from key have k1: "objects w' 0 ''version'' = objects used_world 0 ''version''"
    by (rule keys [THEN spec, THEN mp])
  have "Init cached_grammar (Env 0) 0 used_world = Some (r, w')
        \<and> other w' = 7
        \<and> objects w' 1 = bystander
        \<and> objects w' 0 ''version'' = Some (Napi_Number 1)
        \<and> grammar_lib w' = True"
    using run rest o1 k1 lib before by (simp only: simp_thms)
  then have "\<exists>r w'. Init cached_grammar (Env 0) 0 used_world = Some (r, w')
        \<and> other w' = 7
        \<and> objects w' 1 = bystander
        \<and> objects w' 0 ''version'' = Some (Napi_Number 1)
        \<and> grammar_lib w' = True"
    by (intro exI)
  with ref key show ?thesis by (intro conjI)
qed

subsection \<open>The order of publication\<close>

text \<open>
  Line 8 writes \<open>name\<close> before line 9 calls the entry point: in the run on the fresh
  process, the configuration at line 9 has \<open>name\<close> in the container, which was not there
  before, and the entry point has not returned. So a part of the descriptor is published
  before the entry point has returned.
\<close>

theorem Init_publishes_before_entry_point_counterexample:
  "fresh_run ! 1 \<in> set fresh_run
   \<and> \<not> entry_point_returned (fst (fresh_run ! 1))
   \<and> objects (snd (fresh_run ! 1)) 0 ''name'' = Some (Napi_String ''coral'')
   \<and> objects fresh_world 0 ''name'' = None"
proof -
  have "objects fresh_world 0 ''name'' = None"
    by (simp add: fresh_world_def)
  then show ?thesis
    by (simp add: fresh_run_def Init_run_trace String_New_def)
qed

text \<open>
  C6 (amended). The handle is never published before the entry point has returned: at
  every point of \<open>Init\<close> before that return the \<open>language\<close> entry of the container is what
  it was before the call of \<open>Init\<close>, and wherever that entry has changed it is the
  external made from the pointer the entry point returned, hence not null when the
  entry point did not return null.
\<close>

theorem Init_language_after_entry_point:
  assumes "c \<in> set (Init_run tree_sitter_coral env exports (At_L8, w))"
  shows "(\<not> entry_point_returned (fst c)
            \<longrightarrow> objects (snd c) exports ''language'' = objects w exports ''language'')
       \<and> (objects (snd c) exports ''language'' \<noteq> objects w exports ''language''
            \<longrightarrow> objects (snd c) exports ''language''
                  = Some (External_New env (fst (tree_sitter_coral (grammar_lib w))))
              \<and> language_handle (objects (snd c) exports)
                  = Some (fst (tree_sitter_coral (grammar_lib w))))
       \<and> (objects (snd c) exports ''language'' \<noteq> objects w exports ''language''
            \<longrightarrow> fst (tree_sitter_coral (grammar_lib w)) \<noteq> nullptr
            \<longrightarrow> language_handle (objects (snd c) exports) \<noteq> Some nullptr)"
  using assms unfolding Init_run_points
  by (elim disjE) (simp_all add: External_New_def)

theorem Init_language_after_entry_point_witness:
  "last fresh_run \<in> set (Init_run cached_grammar (Env 0) 0 (At_L8, fresh_world))
   \<and> objects (snd (last fresh_run)) 0 ''language'' \<noteq> objects fresh_world 0 ''language''
   \<and> fst (cached_grammar (grammar_lib fresh_world)) \<noteq> nullptr
   \<and> entry_point_returned (fst (last fresh_run))
   \<and> language_handle (objects (snd (last fresh_run)) 0)
       = Some (fst (cached_grammar (grammar_lib fresh_world)))
   \<and> language_handle (objects (snd (last fresh_run)) 0) \<noteq> Some nullptr"
proof -
  have point: "last fresh_run \<in> set (Init_run cached_grammar (Env 0) 0 (At_L8, fresh_world))"
    by (simp add: fresh_run_def Init_run_trace)
  have changed:
    "objects (snd (last fresh_run)) 0 ''language'' \<noteq> objects fresh_world 0 ''language''"
    by (simp add: fresh_run_def Init_run_trace fresh_world_def)
  have nonnull: "fst (cached_grammar (grammar_lib fresh_world)) \<noteq> nullptr"
    by (rule cached_grammar_nonnull)
  note facts = Init_language_after_entry_point [OF point]
  from facts have early: "\<not> entry_point_returned (fst (last fresh_run))
      \<longrightarrow> objects (snd (last fresh_run)) 0 ''language'' = objects fresh_world 0 ''language''"
    by (rule conjunct1)
  from early changed have returned: "entry_point_returned (fst (last fresh_run))"
    by blast
  from facts changed have handle: "language_handle (objects (snd (last fresh_run)) 0)
      = Some (fst (cached_grammar (grammar_lib fresh_world)))"
    by blast
  from facts changed nonnull
  have sound: "language_handle (objects (snd (last fresh_run)) 0) \<noteq> Some nullptr"
    by blast
  from point changed nonnull returned handle sound show ?thesis
    by (intro conjI)
qed

subsection \<open>Calling Init twice\<close>

text \<open>
  C7. Idempotence: when the entry point, called again in the state its first call left,
  returns the same pointer, two calls of \<open>Init\<close> one after the other in the same process
  (on the same container or on two) give the same \<open>name\<close>, the string \<open>coral\<close>, and the
  same \<open>language\<close> handle.
\<close>

theorem Init_twice:
  assumes "returns_cached tree_sitter_coral (grammar_lib w)"
  shows "\<exists>r1 w1 r2 w2.
           Init tree_sitter_coral env exports1 w = Some (r1, w1)
         \<and> Init tree_sitter_coral env exports2 w1 = Some (r2, w2)
         \<and> objects w1 exports1 ''name'' = Some (Napi_String ''coral'')
         \<and> objects w2 exports2 ''name'' = Some (Napi_String ''coral'')
         \<and> objects w2 exports2 ''language'' = objects w1 exports1 ''language''
         \<and> language_handle (objects w2 exports2) = language_handle (objects w1 exports1)"
  using assms
  by (simp add: Init_result returns_cached_def String_New_def External_New_def)

theorem Init_twice_witness:
  "returns_cached cached_grammar (grammar_lib fresh_world)
   \<and> (\<exists>r1 w1 r2 w2.
          Init cached_grammar (Env 0) 0 fresh_world = Some (r1, w1)
        \<and> Init cached_grammar (Env 0) 1 w1 = Some (r2, w2)
        \<and> objects w1 0 ''name'' = Some (Napi_String ''coral'')
        \<and> objects w2 1 ''name'' = Some (Napi_String ''coral'')
        \<and> objects w2 1 ''language'' = objects w1 0 ''language''
        \<and> language_handle (objects w2 1) = language_handle (objects w1 0))"
proof -
  have cached: "returns_cached cached_grammar (grammar_lib fresh_world)"
    by (simp add: returns_cached_def cached_grammar_def)
  from cached Init_twice [OF cached, of "Env 0" 0 1] show ?thesis
    by (rule conjI)
qed

subsection \<open>No error, no check\<close>

text \<open>
  C8. \<open>Init\<close> has no failing path and checks nothing: whatever pointer the entry point
  returns, the null pointer included, \<open>Init\<close> returns the container, with that pointer
  stored under \<open>language\<close> as it came.
\<close>

theorem Init_never_fails:
  assumes "tree_sitter_coral (grammar_lib w) = (p, lib')"
  shows "\<exists>w'. Init tree_sitter_coral env exports w = Some (exports, w')
           \<and> objects w' exports ''language'' = Some (Napi_External p)
           \<and> language_handle (objects w' exports) = Some p
           \<and> grammar_lib w' = lib'"
  using assms by (simp add: Init_result External_New_def)

theorem Init_never_fails_witness:
  "null_grammar (grammar_lib fresh_world) = (nullptr, False)
   \<and> (\<exists>w'. Init null_grammar (Env 0) 0 fresh_world = Some (0, w')
        \<and> objects w' 0 ''language'' = Some (Napi_External nullptr)
        \<and> language_handle (objects w' 0) = Some nullptr
        \<and> grammar_lib w' = False)"
proof -
  have null: "null_grammar (grammar_lib fresh_world) = (nullptr, False)"
    by (simp add: null_grammar_def fresh_world_def)
  from null
    Init_never_fails [where tree_sitter_coral = null_grammar and w = fresh_world
      and env = "Env 0" and exports = 0, OF null]
  show ?thesis
    by (rule conjI)
qed

subsection \<open>The order of the statements\<close>

text \<open>
  C9. The run of \<open>Init\<close> passes line 8, line 9, line 10, line 11 and the return, in this
  order. At line 9, before the entry point is called, \<open>name\<close> is already written, the
  \<open>language\<close> entry is still what it was and the library has not been touched; at line 10
  the same holds of the two entries; from line 11 on both are written. Hence \<open>name\<close> is
  present at every point after the first statement, and, when the container had no
  \<open>language\<close> entry before, at no point of the run is \<open>language\<close> present and \<open>name\<close>
  absent.
\<close>

theorem Init_name_first:
  "\<exists>w1 w2 w3 language.
      Init_run tree_sitter_coral env exports (At_L8, w)
        = [(At_L8, w), (At_L9, w1), (At_L10 language, w2), (At_L11 language, w3),
           (Returned exports, w3)]
    \<and> objects w1 exports ''name'' = Some (Napi_String ''coral'')
    \<and> objects w1 exports ''language'' = objects w exports ''language''
    \<and> grammar_lib w1 = grammar_lib w
    \<and> objects w2 exports ''name'' = Some (Napi_String ''coral'')
    \<and> objects w2 exports ''language'' = objects w exports ''language''
    \<and> objects w3 exports ''name'' = Some (Napi_String ''coral'')
    \<and> objects w3 exports ''language'' = Some language
    \<and> (\<forall>c \<in> set (tl (Init_run tree_sitter_coral env exports (At_L8, w))).
          objects (snd c) exports ''name'' = Some (Napi_String ''coral''))
    \<and> (objects w exports ''language'' = None
          \<longrightarrow> (\<forall>c \<in> set (Init_run tree_sitter_coral env exports (At_L8, w)).
                 objects (snd c) exports ''language'' \<noteq> None
                   \<longrightarrow> objects (snd c) exports ''name'' \<noteq> None))"
  by (simp add: Init_run_trace String_New_def)

theorem Init_name_first_witness:
  "fresh_run ! 1 \<in> set (tl (Init_run cached_grammar (Env 0) 0 (At_L8, fresh_world)))
   \<and> objects (snd (fresh_run ! 1)) 0 ''name'' = Some (Napi_String ''coral'')
   \<and> objects fresh_world 0 ''language'' = None
   \<and> last fresh_run \<in> set (Init_run cached_grammar (Env 0) 0 (At_L8, fresh_world))
   \<and> objects (snd (last fresh_run)) 0 ''language'' \<noteq> None
   \<and> objects (snd (last fresh_run)) 0 ''name'' \<noteq> None"
proof -
  have second: "fresh_run ! 1 \<in> set (tl (Init_run cached_grammar (Env 0) 0 (At_L8, fresh_world)))"
    by (simp add: fresh_run_def Init_run_trace)
  have prior: "objects fresh_world 0 ''language'' = None"
    by (simp add: fresh_world_def)
  have final: "last fresh_run \<in> set (Init_run cached_grammar (Env 0) 0 (At_L8, fresh_world))"
    by (simp add: fresh_run_def Init_run_trace)
  have written: "objects (snd (last fresh_run)) 0 ''language'' \<noteq> None"
    by (simp add: fresh_run_def Init_run_trace)
  note order = Init_name_first [of cached_grammar "Env 0" 0 fresh_world]
  from order
  have after_first: "\<forall>c \<in> set (tl (Init_run cached_grammar (Env 0) 0 (At_L8, fresh_world))).
        objects (snd c) 0 ''name'' = Some (Napi_String ''coral'')"
    by (elim exE conjE)
  from order
  have never: "objects fresh_world 0 ''language'' = None
        \<longrightarrow> (\<forall>c \<in> set (Init_run cached_grammar (Env 0) 0 (At_L8, fresh_world)).
               objects (snd c) 0 ''language'' \<noteq> None \<longrightarrow> objects (snd c) 0 ''name'' \<noteq> None)"
    by (elim exE conjE)
  from after_first second
  have name1: "objects (snd (fresh_run ! 1)) 0 ''name'' = Some (Napi_String ''coral'')"
    by (rule bspec)
  from never prior
  have "\<forall>c \<in> set (Init_run cached_grammar (Env 0) 0 (At_L8, fresh_world)).
          objects (snd c) 0 ''language'' \<noteq> None \<longrightarrow> objects (snd c) 0 ''name'' \<noteq> None"
    by (rule mp)
  then have "objects (snd (last fresh_run)) 0 ''language'' \<noteq> None
      \<longrightarrow> objects (snd (last fresh_run)) 0 ''name'' \<noteq> None"
    using final by (rule bspec)
  then have name_last: "objects (snd (last fresh_run)) 0 ''name'' \<noteq> None"
    using written by (rule mp)
  from second name1 prior final written name_last show ?thesis
    by (intro conjI)
qed

subsection \<open>The prior contents do not matter\<close>

text \<open>
  C10. Noninterference: \<open>Init\<close> does not read the container. Run in two processes that
  differ in their objects only, on any two containers, it stores the same values under
  \<open>name\<close> and under \<open>language\<close>: the string \<open>coral\<close> and the external of the pointer the
  entry point returns, whatever the containers held under these keys before.
\<close>

theorem Init_noninterference:
  "\<exists>r1 w1 r2 w2.
      Init tree_sitter_coral env exports1 (w\<lparr>objects := h1\<rparr>) = Some (r1, w1)
    \<and> Init tree_sitter_coral env exports2 (w\<lparr>objects := h2\<rparr>) = Some (r2, w2)
    \<and> objects w1 exports1 ''name'' = objects w2 exports2 ''name''
    \<and> objects w1 exports1 ''language'' = objects w2 exports2 ''language''
    \<and> objects w1 exports1 ''name'' = Some (Napi_String ''coral'')
    \<and> objects w1 exports1 ''language''
        = Some (Napi_External (fst (tree_sitter_coral (grammar_lib w))))"
  by (simp add: Init_result String_New_def External_New_def)

end
